theory Spec2Isabelle
  imports Complex_Main "HOL-Library.Log_Nat"
begin

section \<open>A session-scoped transaction ledger\<close>

text \<open>
  The service has one table, \<open>transactions\<close>, and four routes registered by the plugin
  \<open>transactionsRoutes\<close> (src/src/app.ts, second document): create, list, get by id and
  summary. The environment loader (src/unnamed/part_001, second document) validates the
  process environment with a Zod schema.

  Conventions of the embedding:
  \<^item> a JavaScript number in a request body or a table cell is a rational number. Every
    finite double is one, and \<open>amount * -1\<close> is exact on doubles. The two zeros are
    identified and literals outside the double range are not modelled. The sum of a
    column is computed by the storage engine, in floating point: the engine's aggregate
    is a component of the world, and the definitions assume nothing about it;
    \<open>Number(string)\<close>, which the environment loader uses, also produces \<open>NaN\<close> and the
    infinities, so it has a result type of its own;
  \<^item> a JavaScript string is a \<open>string\<close>, one \<open>char\<close> per code unit (ASCII);
  \<^item> an object read only by key (\<open>request.cookies\<close>, \<open>request.params\<close>,
    \<open>process.env\<close>, a parsed JSON object) is a map from keys to values, and a key that is
    not in the map reads as \<open>undefined\<close>;
  \<^item> a thrown exception is the outcome \<open>Threw\<close>, a reply is the outcome \<open>Sent\<close>, and every
    handler returns the world it leaves behind next to its outcome;
  \<^item> the world holds the table, the trace of statements sent to the storage handle, the
    console, the clock, the source of random UUIDs with the number of UUIDs drawn so
    far, and the aggregate \<open>SUM\<close> of the storage engine.
  Zod is modelled as version 3 behaves: \<open>z.number()\<close> accepts every value of type number
  but \<open>NaN\<close> and never converts a string, \<open>z.enum\<close> accepts exactly the listed strings,
  \<open>.default(v)\<close> replaces \<open>undefined\<close> by \<open>v\<close>, and \<open>z.object\<close> reports the issues of all
  its fields.
\<close>

subsection \<open>Values of a request\<close>

datatype jsvalue =
    JUndefined
  | JNull
  | JBoolean bool
  | JNumber rat
  | JString string
  | JArray "jsvalue list"
  | JObject "string \<Rightarrow> jsvalue option"

text \<open>Reading a property: a missing key gives \<open>undefined\<close>.\<close>

definition property :: "(string \<Rightarrow> jsvalue option) \<Rightarrow> string \<Rightarrow> jsvalue" where
  "property obj k = (case obj k of None \<Rightarrow> JUndefined | Some v \<Rightarrow> v)"

record request =
  http_method :: string
  url :: string
  cookies :: "string \<rightharpoonup> string"
  body :: jsvalue
  params :: "string \<rightharpoonup> string"

subsection \<open>The table and the world\<close>

text \<open>
  A row of \<open>transactions\<close>, as declared in the \<open>Tables\<close> interface
  (src/unnamed/part_001): \<open>session_id\<close> is optional there. The column \<open>id\<close> is named
  \<open>id_col\<close>, since \<open>id\<close> is the identity function of HOL.
\<close>

record row =
  id_col :: string
  title :: string
  amount :: rat
  created_at :: string
  session_id :: "string option"

text \<open>The statements the handlers send to the storage handle \<open>knex\<close>.\<close>

datatype statement =
    Insert row
  | SelectWhereSession string
  | FirstWhereSessionAndId string string
  | SumAmountWhereSession string

record world =
  table :: "row list"
  statements :: "statement list"
  console :: "string list"
  uuid_source :: "nat \<Rightarrow> string"
  uuid_count :: nat
  clock :: string
  storage_sum :: "rat list \<Rightarrow> rat"

text \<open>\<open>randomUUID()\<close> draws the next value of the source.\<close>

definition randomUUID :: "world \<Rightarrow> string \<times> world" where
  "randomUUID w = (uuid_source w (uuid_count w), w\<lparr>uuid_count := Suc (uuid_count w)\<rparr>)"

subsection \<open>Replies and exceptions\<close>

record cookie_options =
  path :: string
  maxAge :: nat

datatype payload =
    NoBody
  | TransactionsBody "row list"
  | TransactionBody "row option"
  | SummaryBody "rat option"
  | UnauthorizedBody

record response =
  status :: nat
  set_cookie :: "(string \<times> string \<times> cookie_options) list"
  payload :: payload

datatype zod_code = invalid_type | invalid_enum_value | invalid_string

text \<open>An issue of a \<open>ZodError\<close>: the path of the field and the code of the violation.\<close>

type_synonym issue = "string list \<times> zod_code"

datatype error =
    ZodError "issue list"
  | UndefinedBinding

datatype outcome = Threw error | Sent response

subsection \<open>Zod schemas of the routes\<close>

definition z_string :: "jsvalue \<Rightarrow> zod_code + string" where
  "z_string v = (case v of JString s \<Rightarrow> Inr s | _ \<Rightarrow> Inl invalid_type)"

definition z_number :: "jsvalue \<Rightarrow> zod_code + rat" where
  "z_number v = (case v of JNumber n \<Rightarrow> Inr n | _ \<Rightarrow> Inl invalid_type)"

definition z_enum :: "string list \<Rightarrow> jsvalue \<Rightarrow> zod_code + string" where
  "z_enum vals v =
     (case v of
        JString s \<Rightarrow> if s \<in> set vals then Inr s else Inl invalid_enum_value
      | _ \<Rightarrow> Inl invalid_type)"

definition field_issues :: "string \<Rightarrow> zod_code + 'a \<Rightarrow> issue list" where
  "field_issues k r = (case r of Inl c \<Rightarrow> [([k], c)] | Inr _ \<Rightarrow> [])"

record create_body =
  body_title :: string
  body_amount :: rat
  body_type :: string

text \<open>
  \<open>createTransactionBodySchema.parse(request.body)\<close>: the body has to be an object; the
  three fields are checked in the order of the schema and every failing field adds its
  issue.
\<close>

definition createTransactionBodySchema_parse :: "jsvalue \<Rightarrow> issue list + create_body" where
  "createTransactionBodySchema_parse b =
     (case b of
        JObject obj \<Rightarrow>
          (let t = z_string (property obj ''title'');
               a = z_number (property obj ''amount'');
               ty = z_enum [''credit'', ''debit''] (property obj ''type'')
           in case (t, a, ty) of
                (Inr t', Inr a', Inr ty') \<Rightarrow>
                  Inr \<lparr>body_title = t', body_amount = a', body_type = ty'\<rparr>
              | _ \<Rightarrow>
                  Inl (field_issues ''title'' t @ field_issues ''amount'' a
                       @ field_issues ''type'' ty))
      | _ \<Rightarrow> Inl [([], invalid_type)])"

text \<open>
  \<open>z.string().uuid()\<close>: eight, four, four, four and twelve hexadecimal digits, separated
  by hyphens.
\<close>

definition is_hex :: "char \<Rightarrow> bool" where
  "is_hex c = (let n = of_char c :: nat in
     (48 \<le> n \<and> n \<le> 57) \<or> (65 \<le> n \<and> n \<le> 70) \<or> (97 \<le> n \<and> n \<le> 102))"

fun hex_groups :: "nat list \<Rightarrow> string \<Rightarrow> bool" where
  "hex_groups [] s = False"
| "hex_groups [n] s = (length s = n \<and> list_all is_hex s)"
| "hex_groups (n # ns) s =
     (list_all is_hex (take n s) \<and> length (take n s) = n \<and>
      (case drop n s of c # rest \<Rightarrow> c = CHR ''-'' \<and> hex_groups ns rest | [] \<Rightarrow> False))"

definition is_uuid :: "string \<Rightarrow> bool" where
  "is_uuid s = hex_groups [8, 4, 4, 4, 12] s"

text \<open>\<open>getTransactionsParamsSchema.parse(request.params)\<close>.\<close>

definition getTransactionsParamsSchema_parse :: "(string \<rightharpoonup> string) \<Rightarrow> issue list + string" where
  "getTransactionsParamsSchema_parse ps =
     (case ps ''id'' of
        None \<Rightarrow> Inl [([''id''], invalid_type)]
      | Some s \<Rightarrow> if is_uuid s then Inr s else Inl [([''id''], invalid_string)])"

subsection \<open>The plugin's hook and the session guard\<close>

text \<open>The \<open>preHandler\<close> hook of the plugin prints the method and the address of every request.\<close>

definition log_hook :: "world \<Rightarrow> request \<Rightarrow> world" where
  "log_hook w req = w\<lparr>console := console w @ [''['' @ http_method req @ '' '' @ url req @ '']'']\<rparr>"

text \<open>
  Modelled from the spec: \<open>checkSessionIdExists\<close> of
  \<open>src/middlewares/check-session-id-exists\<close>, which the routes import and which is not
  among the source files. The specification (4.3) says: read the cookie named
  \<open>sessionId\<close>; if it is absent the request is rejected with an unauthorized-style
  response and the handler chain does not proceed; if it is present the request passes
  on unchanged. \<open>Some r\<close> is the rejection, \<open>None\<close> lets the chain proceed.
\<close>

definition checkSessionIdExists :: "request \<Rightarrow> response option" where
  "checkSessionIdExists req =
     (case cookies req ''sessionId'' of
        None \<Rightarrow> Some \<lparr>status = 401, set_cookie = [], payload = UnauthorizedBody\<rparr>
      | Some _ \<Rightarrow> None)"

subsection \<open>Create: \<open>POST /\<close>\<close>

text \<open>
  Modelled from the spec: the default of the column \<open>created_at\<close>, declared by the
  migration that creates the table, which is not among the source files. Section 3 of
  the specification says that the timestamp is set at insert time; here it is the
  clock of the world.
\<close>

definition created_at_default :: "world \<Rightarrow> string" where
  "created_at_default w = clock w"

text \<open>
  \<open>knex('transactions').insert({id, title, amount, session_id})\<close> appends a row; the
  column that the handler does not write takes its default. Failures of the storage
  engine are not modelled.
\<close>

definition knex_insert :: "world \<Rightarrow> string \<Rightarrow> string \<Rightarrow> rat \<Rightarrow> string \<Rightarrow> world" where
  "knex_insert w i t a s =
     (let r = \<lparr>id_col = i, title = t, amount = a, created_at = created_at_default w,
               session_id = Some s\<rparr>
      in w\<lparr>table := table w @ [r], statements := statements w @ [Insert r]\<rparr>)"

text \<open>
  The cookie step. \<open>!sessionId\<close> holds when the cookie is \<open>undefined\<close> and when it is
  the empty string; in both cases a UUID is drawn and set as a cookie of the reply.
  The result is the session, the cookies set on the reply, and the world after the draw.
\<close>

definition mint_session ::
  "world \<Rightarrow> string \<times> (string \<times> string \<times> cookie_options) list \<times> world" where
  "mint_session w =
     (let (sessionId, w') = randomUUID w
      in (sessionId,
          [(''sessionId'', sessionId, \<lparr>path = ''/'', maxAge = 60 * 60 * 24 * 7\<rparr>)],
          w'))"

definition resolve_session ::
  "world \<Rightarrow> request \<Rightarrow> string \<times> (string \<times> string \<times> cookie_options) list \<times> world" where
  "resolve_session w req =
     (case cookies req ''sessionId'' of
        None \<Rightarrow> mint_session w
      | Some sessionId \<Rightarrow> if sessionId = [] then mint_session w else (sessionId, [], w))"

definition create_handler :: "world \<Rightarrow> request \<Rightarrow> outcome \<times> world" where
  "create_handler w req =
     (case createTransactionBodySchema_parse (body req) of
        Inl issues \<Rightarrow> (Threw (ZodError issues), w)
      | Inr b \<Rightarrow>
          (let (sessionId, reply_cookies, w1) = resolve_session w req;
               (i, w2) = randomUUID w1;
               w3 = knex_insert w2 i (body_title b)
                      (if body_type b = ''credit'' then body_amount b else body_amount b * - 1)
                      sessionId
           in (Sent \<lparr>status = 201, set_cookie = reply_cookies, payload = NoBody\<rparr>, w3)))"

definition post_transactions :: "world \<Rightarrow> request \<Rightarrow> outcome \<times> world" where
  "post_transactions w req = create_handler (log_hook w req) req"

subsection \<open>The reading routes\<close>

text \<open>
  A route with \<open>preHandler: [checkSessionIdExists]\<close>: the plugin's hook runs first, then
  the guard, and the handler only if the guard did not reply.
\<close>

definition guarded ::
  "(world \<Rightarrow> request \<Rightarrow> outcome \<times> world) \<Rightarrow> world \<Rightarrow> request \<Rightarrow> outcome \<times> world" where
  "guarded handler w req =
     (let w1 = log_hook w req
      in case checkSessionIdExists req of
           Some rejection \<Rightarrow> (Sent rejection, w1)
         | None \<Rightarrow> handler w1 req)"

definition ok :: "payload \<Rightarrow> response" where
  "ok p = \<lparr>status = 200, set_cookie = [], payload = p\<rparr>"

text \<open>
  \<open>knex('transactions').where('session_id', sessionId)\<close>: the rows of the session, in
  the order of the table. The query builder throws when the value bound is \<open>undefined\<close>.
\<close>

definition where_session :: "string \<Rightarrow> row list \<Rightarrow> row list" where
  "where_session sid rows = filter (\<lambda>r. session_id r = Some sid) rows"

definition list_handler :: "world \<Rightarrow> request \<Rightarrow> outcome \<times> world" where
  "list_handler w req =
     (case cookies req ''sessionId'' of
        None \<Rightarrow> (Threw UndefinedBinding, w)
      | Some sessionId \<Rightarrow>
          (Sent (ok (TransactionsBody (where_session sessionId (table w)))),
           w\<lparr>statements := statements w @ [SelectWhereSession sessionId]\<rparr>))"

definition get_transactions :: "world \<Rightarrow> request \<Rightarrow> outcome \<times> world" where
  "get_transactions = guarded list_handler"

text \<open>
  \<open>.where({session_id: sessionId, id}).first()\<close>: the first row that matches both, or
  \<open>undefined\<close> (here \<open>None\<close>) when there is none. The parameters are parsed before the
  cookie is read.
\<close>

definition get_handler :: "world \<Rightarrow> request \<Rightarrow> outcome \<times> world" where
  "get_handler w req =
     (case getTransactionsParamsSchema_parse (params req) of
        Inl issues \<Rightarrow> (Threw (ZodError issues), w)
      | Inr i \<Rightarrow>
          (case cookies req ''sessionId'' of
             None \<Rightarrow> (Threw UndefinedBinding, w)
           | Some sessionId \<Rightarrow>
               (Sent (ok (TransactionBody
                    (find (\<lambda>r. session_id r = Some sessionId \<and> id_col r = i) (table w)))),
                w\<lparr>statements := statements w @ [FirstWhereSessionAndId sessionId i]\<rparr>)))"

definition get_transaction :: "world \<Rightarrow> request \<Rightarrow> outcome \<times> world" where
  "get_transaction = guarded get_handler"

text \<open>
  \<open>.where('session_id', sessionId).sum('amount', {as: 'amount'}).first()\<close>: the
  aggregate over no row is \<open>null\<close> (here \<open>None\<close>); over some rows it is the number that
  the storage engine computes from their amounts, in the order of the table, and
  hands to JavaScript.
\<close>

definition sum_amount :: "world \<Rightarrow> row list \<Rightarrow> rat option" where
  "sum_amount w rows = (if rows = [] then None else Some (storage_sum w (map amount rows)))"

definition summary_handler :: "world \<Rightarrow> request \<Rightarrow> outcome \<times> world" where
  "summary_handler w req =
     (case cookies req ''sessionId'' of
        None \<Rightarrow> (Threw UndefinedBinding, w)
      | Some sessionId \<Rightarrow>
          (Sent (ok (SummaryBody (sum_amount w (where_session sessionId (table w))))),
           w\<lparr>statements := statements w @ [SumAmountWhereSession sessionId]\<rparr>))"

definition get_summary :: "world \<Rightarrow> request \<Rightarrow> outcome \<times> world" where
  "get_summary = guarded summary_handler"

subsection \<open>The environment loader\<close>

text \<open>
  The result of \<open>Number(string)\<close>. A finite result is the mathematical value of the
  literal; rounding to the nearest double is not modelled.
\<close>

datatype number = NaN | PosInfinity | NegInfinity | Finite rat

definition is_space :: "char \<Rightarrow> bool" where
  "is_space c = (of_char c \<in> {9, 10, 11, 12, 13, 32 :: nat})"

definition trim :: "string \<Rightarrow> string" where
  "trim s = rev (dropWhile is_space (rev (dropWhile is_space s)))"

definition radix_digit :: "nat \<Rightarrow> char \<Rightarrow> nat option" where
  "radix_digit radix c =
     (let n = of_char c :: nat;
          v = (if 48 \<le> n \<and> n \<le> 57 then Some (n - 48)
               else if 97 \<le> n \<and> n \<le> 102 then Some (n - 87)
               else if 65 \<le> n \<and> n \<le> 70 then Some (n - 55)
               else None)
      in case v of None \<Rightarrow> None | Some d \<Rightarrow> if d < radix then Some d else None)"

definition is_digit :: "char \<Rightarrow> bool" where
  "is_digit c = (radix_digit 10 c \<noteq> None)"

definition digits_value :: "nat \<Rightarrow> string \<Rightarrow> nat" where
  "digits_value radix s =
     foldl (\<lambda>acc c. acc * radix + (case radix_digit radix c of None \<Rightarrow> 0 | Some d \<Rightarrow> d)) 0 s"

text \<open>\<open>0x\<close>, \<open>0o\<close> and \<open>0b\<close> literals: a prefix and at least one digit of the radix, no sign.\<close>

definition non_decimal :: "string \<Rightarrow> nat option" where
  "non_decimal t =
     (case t of
        c0 # c1 # ds \<Rightarrow>
          (let radix = (if c1 = CHR ''x'' \<or> c1 = CHR ''X'' then 16
                        else if c1 = CHR ''o'' \<or> c1 = CHR ''O'' then 8
                        else if c1 = CHR ''b'' \<or> c1 = CHR ''B'' then 2
                        else 0 :: nat)
           in if c0 = CHR ''0'' \<and> radix \<noteq> 0 \<and> ds \<noteq> []
                 \<and> list_all (\<lambda>c. radix_digit radix c \<noteq> None) ds
              then Some (digits_value radix ds) else None)
      | _ \<Rightarrow> None)"

text \<open>The exponent part: empty, or \<open>e\<close> or \<open>E\<close>, an optional sign, and at least one digit.\<close>

definition exponent :: "string \<Rightarrow> int option" where
  "exponent r =
     (case r of
        [] \<Rightarrow> Some 0
      | e # ds \<Rightarrow>
          if e = CHR ''e'' \<or> e = CHR ''E'' then
            (let (neg, ms) = (case ds of
                                c # cs \<Rightarrow> if c = CHR ''-'' then (True, cs)
                                           else if c = CHR ''+'' then (False, cs)
                                           else (False, ds)
                              | [] \<Rightarrow> (False, []))
             in if ms \<noteq> [] \<and> list_all is_digit ms
                then Some (if neg then - int (digits_value 10 ms) else int (digits_value 10 ms))
                else None)
          else None)"

definition scale :: "rat \<Rightarrow> int \<Rightarrow> rat" where
  "scale v e = (if 0 \<le> e then v * 10 ^ nat e else v / 10 ^ nat (- e))"

text \<open>
  An unsigned decimal literal: \<open>Infinity\<close>, or digits with an optional fraction, or a
  fraction alone, each with an optional exponent. Anything else is \<open>NaN\<close>.
\<close>

definition unsigned_decimal :: "string \<Rightarrow> number" where
  "unsigned_decimal u =
     (if u = ''Infinity'' then PosInfinity
      else
        (let ip = takeWhile is_digit u;
             r1 = dropWhile is_digit u;
             (fp, r2) = (case r1 of
                           c # r \<Rightarrow> if c = CHR ''.''
                                      then (takeWhile is_digit r, dropWhile is_digit r)
                                      else ([], r1)
                         | [] \<Rightarrow> ([], []))
         in if ip = [] \<and> fp = [] then NaN
            else case exponent r2 of
                   None \<Rightarrow> NaN
                 | Some e \<Rightarrow>
                     Finite (scale (of_nat (digits_value 10 ip)
                                    + of_nat (digits_value 10 fp) / 10 ^ length fp) e)))"

definition negate :: "number \<Rightarrow> number" where
  "negate n =
     (case n of
        NaN \<Rightarrow> NaN
      | PosInfinity \<Rightarrow> NegInfinity
      | NegInfinity \<Rightarrow> PosInfinity
      | Finite v \<Rightarrow> Finite (- v))"

text \<open>\<open>Number(s)\<close> for a string \<open>s\<close>: white space is trimmed and the empty string is 0.\<close>

definition Number :: "string \<Rightarrow> number" where
  "Number s =
     (let t = trim s
      in case t of
           [] \<Rightarrow> Finite 0
         | c # r \<Rightarrow>
             (case non_decimal t of
                Some n \<Rightarrow> Finite (of_nat n)
              | None \<Rightarrow>
                  if c = CHR ''+'' then unsigned_decimal r
                  else if c = CHR ''-'' then negate (unsigned_decimal r)
                  else unsigned_decimal t))"

text \<open>
  The fields of \<open>envSchema\<close>. A variable of \<open>process.env\<close> is a string or \<open>undefined\<close>
  (\<open>None\<close>).
\<close>

definition env_string :: "string option \<Rightarrow> zod_code + string" where
  "env_string v = (case v of None \<Rightarrow> Inl invalid_type | Some s \<Rightarrow> Inr s)"

definition env_enum_default :: "string list \<Rightarrow> string \<Rightarrow> string option \<Rightarrow> zod_code + string" where
  "env_enum_default vals d v =
     (case v of
        None \<Rightarrow> Inr d
      | Some s \<Rightarrow> if s \<in> set vals then Inr s else Inl invalid_enum_value)"

definition env_coerce_number_default :: "number \<Rightarrow> string option \<Rightarrow> zod_code + number" where
  "env_coerce_number_default d v =
     (case v of
        None \<Rightarrow> Inr d
      | Some s \<Rightarrow> (case Number s of NaN \<Rightarrow> Inl invalid_type | n \<Rightarrow> Inr n))"

record env =
  NODE_ENV :: string
  DATABASE_URL :: string
  DATABASE_CLIENT :: string
  PORT :: number

definition envSchema_safeParse :: "(string \<rightharpoonup> string) \<Rightarrow> issue list + env" where
  "envSchema_safeParse penv =
     (let n = env_enum_default [''development'', ''test'', ''production''] ''production''
                (penv ''NODE_ENV'');
          u = env_string (penv ''DATABASE_URL'');
          c = env_enum_default [''sqlite'', ''pg''] ''sqlite'' (penv ''DATABASE_CLIENT'');
          p = env_coerce_number_default (Finite 3333) (penv ''PORT'')
      in case (n, u, c, p) of
           (Inr n', Inr u', Inr c', Inr p') \<Rightarrow>
             Inr \<lparr>NODE_ENV = n', DATABASE_URL = u', DATABASE_CLIENT = c', PORT = p'\<rparr>
         | _ \<Rightarrow>
             Inl (field_issues ''NODE_ENV'' n @ field_issues ''DATABASE_URL'' u
                  @ field_issues ''DATABASE_CLIENT'' c @ field_issues ''PORT'' p))"

text \<open>
  \<open>config({path})\<close> of dotenv: the variables of the file are added to the environment,
  and a variable that is already set keeps its value. A file that cannot be read (\<open>None\<close>)
  changes nothing.
\<close>

definition dotenv_config :: "(string \<rightharpoonup> string) option \<Rightarrow> (string \<rightharpoonup> string) \<Rightarrow> (string \<rightharpoonup> string)" where
  "dotenv_config file penv = (case file of None \<Rightarrow> penv | Some vars \<Rightarrow> vars ++ penv)"

text \<open>
  The environment that the schema sees: \<open>.env.test\<close> is loaded when \<open>NODE_ENV\<close> is
  \<open>test\<close>, \<open>.env\<close> otherwise. \<open>files\<close> gives the variables of each file.
\<close>

definition process_env :: "(string \<Rightarrow> (string \<rightharpoonup> string) option) \<Rightarrow> (string \<rightharpoonup> string) \<Rightarrow> (string \<rightharpoonup> string)" where
  "process_env files penv =
     (if penv ''NODE_ENV'' = Some ''test'' then dotenv_config (files ''.env.test'') penv
      else dotenv_config (files ''.env'') penv)"

text \<open>
  The module: on failure the issues are printed and an \<open>Error\<close> is thrown (\<open>Inl\<close>, with
  the issues printed); on success \<open>env\<close> is the parsed data.
\<close>

datatype env_failure = InvalidEnvironment "issue list"

definition load_env :: "(string \<Rightarrow> (string \<rightharpoonup> string) option) \<Rightarrow> (string \<rightharpoonup> string) \<Rightarrow> env_failure + env" where
  "load_env files penv =
     (case envSchema_safeParse (process_env files penv) of
        Inl issues \<Rightarrow> Inl (InvalidEnvironment issues)
      | Inr data \<Rightarrow> Inr data)"

subsection \<open>What a create request writes\<close>

text \<open>
  The session and the id of the row that a create request inserts: the session comes
  from the cookie step, the id is the UUID drawn after it.
\<close>

definition created_session :: "world \<Rightarrow> request \<Rightarrow> string" where
  "created_session w req = fst (resolve_session (log_hook w req) req)"

definition created_id :: "world \<Rightarrow> request \<Rightarrow> string" where
  "created_id w req = fst (randomUUID (snd (snd (resolve_session (log_hook w req) req))))"

subsection \<open>Bodies that the create schema rejects\<close>

text \<open>
  A body violates the schema when it is not an object, or its \<open>title\<close> is not a string,
  or its \<open>amount\<close> is not a number, or its \<open>type\<close> is not one of the two strings
  \<open>credit\<close> and \<open>debit\<close>.
\<close>

definition violates_create_schema :: "jsvalue \<Rightarrow> bool" where
  "violates_create_schema b =
     (case b of
        JObject obj \<Rightarrow>
          (case property obj ''title'' of JString _ \<Rightarrow> False | _ \<Rightarrow> True)
          \<or> (case property obj ''amount'' of JNumber _ \<Rightarrow> False | _ \<Rightarrow> True)
          \<or> (case property obj ''type'' of
                JString ty \<Rightarrow> ty \<noteq> ''credit'' \<and> ty \<noteq> ''debit''
              | _ \<Rightarrow> True)
      | _ \<Rightarrow> True)"

subsection \<open>Runs of create requests\<close>

text \<open>
  A run of create requests, and the condition that none of them writes to the session
  \<open>s\<close>.
\<close>

fun creates :: "world \<Rightarrow> request list \<Rightarrow> world" where
  "creates w [] = w"
| "creates w (c # cs) = creates (snd (post_transactions w c)) cs"

fun written_elsewhere :: "string \<Rightarrow> world \<Rightarrow> request list \<Rightarrow> bool" where
  "written_elsewhere s w [] = True"
| "written_elsewhere s w (c # cs) =
     (created_session w c \<noteq> s \<and> written_elsewhere s (snd (post_transactions w c)) cs)"

subsection \<open>When the environment is accepted\<close>

text \<open>
  The condition on the environment that the schema sees, read off the schema: the
  required variable is set, each enumerated variable is unset or one of its values, and
  \<open>PORT\<close> is unset or a string that \<open>Number\<close> converts to a number.
\<close>

definition env_accepted :: "(string \<rightharpoonup> string) \<Rightarrow> bool" where
  "env_accepted e =
     (e ''DATABASE_URL'' \<noteq> None
      \<and> (case e ''NODE_ENV'' of
           None \<Rightarrow> True
         | Some v \<Rightarrow> v \<in> set [''development'', ''test'', ''production''])
      \<and> (case e ''DATABASE_CLIENT'' of
           None \<Rightarrow> True
         | Some v \<Rightarrow> v \<in> set [''sqlite'', ''pg''])
      \<and> (case e ''PORT'' of
           None \<Rightarrow> True
         | Some p \<Rightarrow> Number p \<noteq> NaN))"

text \<open>
  The condition as the specification words it (4.1): \<open>PORT\<close> is unset or an integer
  coerced from the string.
\<close>

definition is_integer :: "number \<Rightarrow> bool" where
  "is_integer n = (case n of Finite v \<Rightarrow> v = of_int \<lfloor>v\<rfloor> | _ \<Rightarrow> False)"

definition spec_env_accepted :: "(string \<rightharpoonup> string) \<Rightarrow> bool" where
  "spec_env_accepted e =
     (e ''DATABASE_URL'' \<noteq> None
      \<and> (case e ''NODE_ENV'' of
           None \<Rightarrow> True
         | Some v \<Rightarrow> v \<in> set [''development'', ''test'', ''production''])
      \<and> (case e ''DATABASE_CLIENT'' of
           None \<Rightarrow> True
         | Some v \<Rightarrow> v \<in> set [''sqlite'', ''pg''])
      \<and> (case e ''PORT'' of
           None \<Rightarrow> True
         | Some p \<Rightarrow> is_integer (Number p)))"

subsection \<open>Sums that every engine computes exactly\<close>



subsection \<open>Rounding to a double\<close>

text \<open>
  The double nearest to a rational number, ties to the even significand (overflow and
  subnormal numbers are left out): \<open>binade a\<close> is the exponent \<open>e\<close> with
  \<open>2 ^ e \<le> a < 2 ^ (e + 1)\<close>, and the number is rounded to a multiple of
  \<open>2 ^ (e - 52)\<close>, so that 53 bits are kept.
\<close>

definition pow2 :: "int \<Rightarrow> rat" where
  "pow2 k = (if 0 \<le> k then 2 ^ nat k else 1 / 2 ^ nat (- k))"

definition binade :: "rat \<Rightarrow> int" where
  "binade a =
     (if 1 \<le> a then int (floorlog 2 (nat \<lfloor>a\<rfloor>)) - 1
      else - int (ceillog2 (nat \<lceil>1 / a\<rceil>)))"

definition round_half_even :: "rat \<Rightarrow> int" where
  "round_half_even y =
     (let f = \<lfloor>y\<rfloor>; d = y - of_int f
      in if d < 1 / 2 then f
         else if 1 / 2 < d then f + 1
         else if even f then f else f + 1)"

definition nearest_double :: "rat \<Rightarrow> rat" where
  "nearest_double x =
     (if x = 0 then 0
      else (let u = pow2 (binade \<bar>x\<bar> - 52)
            in of_int (round_half_even (x / u)) * u))"

text \<open>An engine that returns the sum of the column, rounded to a double.\<close>

definition double_sum :: "rat list \<Rightarrow> rat" where
  "double_sum xs = nearest_double (sum_list xs)"

subsection \<open>Worlds, requests and environments to run the code on\<close>

text \<open>
  An empty table, and a table with rows of two sessions. The UUIDs that the runs below
  draw from the sources differ from each other and from the ids in the table.
\<close>

definition example_world :: world where
  "example_world =
     \<lparr>table = [], statements = [], console = [],
      uuid_source = (\<lambda>n. if n = 0 then ''0f8fad5b-d9cb-469f-a165-70867728950e''
                         else if n = 1 then ''7c9e6679-7425-40de-944b-e07fc1f90ae7''
                         else ''f47ac10b-58cc-4372-a567-0e02b2c3d479''),
      uuid_count = 0, clock = ''2024-01-01 00:00:00'', storage_sum = double_sum\<rparr>"

definition example_ledger :: world where
  "example_ledger =
     \<lparr>table =
        [\<lparr>id_col = ''7c9e6679-7425-40de-944b-e07fc1f90ae7'', title = ''Credit transaction'',
          amount = 5000, created_at = ''2024-01-01 00:00:00'',
          session_id = Some ''0f8fad5b-d9cb-469f-a165-70867728950e''\<rparr>,
         \<lparr>id_col = ''16fd2706-8baf-433b-82eb-8c7fada847da'', title = ''Rent'',
          amount = - 70, created_at = ''2024-01-02 00:00:00'',
          session_id = Some ''6ba7b810-9dad-11d1-80b4-00c04fd430c8''\<rparr>,
         \<lparr>id_col = ''886313e1-3b8a-5372-9b90-0c9aee199e5d'', title = ''Debit transaction'',
          amount = - 2000, created_at = ''2024-01-03 00:00:00'',
          session_id = Some ''0f8fad5b-d9cb-469f-a165-70867728950e''\<rparr>],
      statements = [], console = [],
      uuid_source = (\<lambda>n. if n = 5 then ''a3bb189e-8bf9-3888-9912-ace4e6543002''
                         else if n = 6 then ''3d813cbb-47fb-32ba-91df-831e1593ac29''
                         else ''c9bf9e57-1685-4c89-bafb-ff5af830be8a''),
      uuid_count = 5, clock = ''2024-01-04 00:00:00'', storage_sum = double_sum\<rparr>"

text \<open>
  A create request on \<open>/transactions\<close> with the given cookies and fields, as the test
  suite sends them, and a reading request on the given address.
\<close>

definition create_request :: "(string \<rightharpoonup> string) \<Rightarrow> jsvalue \<Rightarrow> jsvalue \<Rightarrow> jsvalue \<Rightarrow> request" where
  "create_request cs t a ty =
     \<lparr>http_method = ''POST'', url = ''/transactions'', cookies = cs,
      body = JObject [''title'' \<mapsto> t, ''amount'' \<mapsto> a, ''type'' \<mapsto> ty],
      params = Map.empty\<rparr>"

definition read_request :: "string \<Rightarrow> (string \<rightharpoonup> string) \<Rightarrow> (string \<rightharpoonup> string) \<Rightarrow> request" where
  "read_request u cs ps =
     \<lparr>http_method = ''GET'', url = u, cookies = cs, body = JUndefined, params = ps\<rparr>"

text \<open>No file to load, and the variables of a test file.\<close>

definition no_files :: "string \<Rightarrow> (string \<rightharpoonup> string) option" where
  "no_files f = None"

definition test_files :: "string \<Rightarrow> (string \<rightharpoonup> string) option" where
  "test_files f =
     (if f = ''.env.test''
      then Some [''DATABASE_URL'' \<mapsto> ''./db/test.db'', ''PORT'' \<mapsto> ''1'']
      else None)"

section \<open>Properties\<close>

subsection \<open>Fields that the steps of a handler leave alone\<close>

lemma log_hook_fields [simp]:
  "table (log_hook w req) = table w"
  "statements (log_hook w req) = statements w"
  "uuid_source (log_hook w req) = uuid_source w"
  "uuid_count (log_hook w req) = uuid_count w"
  "clock (log_hook w req) = clock w"
  "storage_sum (log_hook w req) = storage_sum w"
  by (simp_all add: log_hook_def)

lemma resolve_session_fields [simp]:
  "table (snd (snd (resolve_session w req))) = table w"
  "statements (snd (snd (resolve_session w req))) = statements w"
  "clock (snd (snd (resolve_session w req))) = clock w"
  "console (snd (snd (resolve_session w req))) = console w"
  "storage_sum (snd (snd (resolve_session w req))) = storage_sum w"
  "uuid_source (snd (snd (resolve_session w req))) = uuid_source w"
  by (simp_all add: resolve_session_def mint_session_def randomUUID_def split: option.splits)

lemma randomUUID_fields [simp]:
  "table (snd (randomUUID w)) = table w"
  "statements (snd (randomUUID w)) = statements w"
  "clock (snd (randomUUID w)) = clock w"
  "console (snd (randomUUID w)) = console w"
  "storage_sum (snd (randomUUID w)) = storage_sum w"
  "uuid_source (snd (randomUUID w)) = uuid_source w"
  by (simp_all add: randomUUID_def)

lemma post_transactions_fields [simp]:
  "storage_sum (snd (post_transactions w req)) = storage_sum w"
  "uuid_source (snd (post_transactions w req)) = uuid_source w"
  by (simp_all add: post_transactions_def create_handler_def knex_insert_def split_def Let_def
      split: sum.splits)

lemma post_transactions_valid:
  assumes "createTransactionBodySchema_parse (body req) = Inr b"
  shows "fst (post_transactions w req) =
           Sent \<lparr>status = 201, set_cookie = fst (snd (resolve_session (log_hook w req) req)),
                 payload = NoBody\<rparr>"
    and "table (snd (post_transactions w req)) =
           table w @ [\<lparr>id_col = created_id w req, title = body_title b,
                        amount = (if body_type b = ''credit'' then body_amount b else - body_amount b), created_at = clock w,
                        session_id = Some (created_session w req)\<rparr>]"
  using assms
  by (simp_all add: post_transactions_def create_handler_def knex_insert_def created_at_default_def
      created_id_def
      created_session_def split_def Let_def)

lemma parse_valid:
  assumes "obj ''title'' = Some (JString t)" "obj ''amount'' = Some (JNumber a)"
    "obj ''type'' = Some (JString ty)" "ty = ''credit'' \<or> ty = ''debit''"
  shows "createTransactionBodySchema_parse (JObject obj) =
           Inr \<lparr>body_title = t, body_amount = a, body_type = ty\<rparr>"
  using assms
  by (auto simp add: createTransactionBodySchema_parse_def property_def z_string_def
      z_number_def z_enum_def Let_def)

lemma post_transactions_invalid:
  assumes "createTransactionBodySchema_parse (body req) = Inl issues"
  shows "post_transactions w req = (Threw (ZodError issues), log_hook w req)"
  using assms by (simp add: post_transactions_def create_handler_def)

subsection \<open>Sign of the stored amount\<close>

text \<open>
  C1. For every valid create request (a title that is a string, an amount that is a
  number, a type that is credit or debit) the route inserts one row, whose amount is
  the input amount for a credit and the negated input amount for a debit. When the
  input amount is positive, the stored amount of a credit is positive and the stored
  amount of a debit is the negated input, which is negative.
\<close>

theorem create_stores_signed_amount:
  assumes "body req = JObject obj"
    and "obj ''title'' = Some (JString t)"
    and "obj ''amount'' = Some (JNumber a)"
    and "obj ''type'' = Some (JString ty)"
    and "ty = ''credit'' \<or> ty = ''debit''"
  shows "table (snd (post_transactions w req)) =
           table w @ [\<lparr>id_col = created_id w req, title = t,
                        amount = (if ty = ''credit'' then a else - a),
                        created_at = clock w,
                        session_id = Some (created_session w req)\<rparr>]
         \<and> (0 < a \<longrightarrow>
              (ty = ''credit'' \<longrightarrow> 0 < (if ty = ''credit'' then a else - a))
            \<and> (ty = ''debit'' \<longrightarrow> (if ty = ''credit'' then a else - a) = - a
                                   \<and> (if ty = ''credit'' then a else - a) < 0))"
proof -
  have p: "createTransactionBodySchema_parse (body req) =
             Inr \<lparr>body_title = t, body_amount = a, body_type = ty\<rparr>"
    using assms by (simp add: parse_valid)
  show ?thesis
    using post_transactions_valid(2) [OF p, of w] by auto
qed

theorem create_stores_signed_amount_witness:
  "table (snd (post_transactions example_world
       (create_request Map.empty (JString ''D'') (JNumber 2000) (JString ''debit'')))) =
     [\<lparr>id_col = ''7c9e6679-7425-40de-944b-e07fc1f90ae7'', title = ''D'', amount = - 2000,
       created_at = ''2024-01-01 00:00:00'',
       session_id = Some ''0f8fad5b-d9cb-469f-a165-70867728950e''\<rparr>]"
proof -
  let ?req = "create_request Map.empty (JString ''D'') (JNumber 2000) (JString ''debit'')"
  let ?obj = "[''title'' \<mapsto> JString ''D'', ''amount'' \<mapsto> JNumber 2000,
               ''type'' \<mapsto> JString ''debit'']"
  have b: "body ?req = JObject ?obj" by (simp add: create_request_def)
  have i: "created_id example_world ?req = ''7c9e6679-7425-40de-944b-e07fc1f90ae7''"
    by (simp add: created_id_def resolve_session_def mint_session_def randomUUID_def
        create_request_def example_world_def log_hook_def)
  have s: "created_session example_world ?req = ''0f8fad5b-d9cb-469f-a165-70867728950e''"
    by (simp add: created_session_def resolve_session_def mint_session_def randomUUID_def
        create_request_def example_world_def log_hook_def)
  show ?thesis
    using create_stores_signed_amount [OF b, of "''D''" 2000 "''debit''" example_world]
    by (simp add: i s) (simp add: example_world_def)
qed

lemma parse_invalid:
  assumes "violates_create_schema b"
  shows "\<exists>issues. issues \<noteq> [] \<and> createTransactionBodySchema_parse b = Inl issues"
  using assms
  by (auto simp add: violates_create_schema_def createTransactionBodySchema_parse_def
      z_string_def z_number_def z_enum_def field_issues_def Let_def
      split: jsvalue.splits if_splits)

subsection \<open>No positivity check on the amount\<close>

text \<open>
  C10. The create schema puts no positivity constraint on the amount: for a create
  request of type credit or debit and any amount, also zero or negative, validation
  succeeds and a row is inserted with the sign transformation applied (a credit stores
  the amount as it is, a debit stores its negation). For an amount that is not
  positive, a credit is stored as a value that is not positive and a debit as a value
  that is not negative, so the sign of the stored value no longer tells the type.
\<close>

theorem create_accepts_any_amount:
  assumes "body req = JObject obj"
    and "obj ''title'' = Some (JString t)"
    and "obj ''amount'' = Some (JNumber a)"
    and "obj ''type'' = Some (JString ty)"
    and "ty = ''credit'' \<or> ty = ''debit''"
  shows "createTransactionBodySchema_parse (body req) =
           Inr \<lparr>body_title = t, body_amount = a, body_type = ty\<rparr>
         \<and> (\<exists>cs. fst (post_transactions w req) =
                    Sent \<lparr>status = 201, set_cookie = cs, payload = NoBody\<rparr>)
         \<and> map amount (table (snd (post_transactions w req))) =
             map amount (table w) @ [if ty = ''credit'' then a else - a]
         \<and> (a \<le> 0 \<longrightarrow>
              (ty = ''credit'' \<longrightarrow> (if ty = ''credit'' then a else - a) \<le> 0)
            \<and> (ty = ''debit'' \<longrightarrow> 0 \<le> (if ty = ''credit'' then a else - a)))"
proof -
  have p: "createTransactionBodySchema_parse (body req) =
             Inr \<lparr>body_title = t, body_amount = a, body_type = ty\<rparr>"
    using assms by (simp add: parse_valid)
  show ?thesis
    using p post_transactions_valid(1) [OF p, of w] post_transactions_valid(2) [OF p, of w]
    by auto
qed

theorem create_accepts_any_amount_witness:
  "map amount (table (snd (post_transactions example_world
       (create_request Map.empty (JString ''C'') (JNumber (- 5)) (JString ''credit''))))) =
     [- 5]
   \<and> map amount (table (snd (post_transactions example_world
       (create_request Map.empty (JString ''D'') (JNumber (- 5)) (JString ''debit''))))) =
     [5]"
proof -
  let ?c = "create_request Map.empty (JString ''C'') (JNumber (- 5)) (JString ''credit'')"
  let ?d = "create_request Map.empty (JString ''D'') (JNumber (- 5)) (JString ''debit'')"
  have c: "body ?c = JObject [''title'' \<mapsto> JString ''C'', ''amount'' \<mapsto> JNumber (- 5),
               ''type'' \<mapsto> JString ''credit'']"
    by (simp add: create_request_def)
  have d: "body ?d = JObject [''title'' \<mapsto> JString ''D'', ''amount'' \<mapsto> JNumber (- 5),
               ''type'' \<mapsto> JString ''debit'']"
    by (simp add: create_request_def)
  show ?thesis
    using create_accepts_any_amount [OF c, of "''C''" "- 5" "''credit''" example_world]
      create_accepts_any_amount [OF d, of "''D''" "- 5" "''debit''" example_world]
    by (simp add: example_world_def)
qed

subsection \<open>Validation failure\<close>

text \<open>
  C8. For every create request whose body fails the create schema (a title that is not
  a string, an amount that is not a number, or a type outside credit and debit) the
  route throws a validation error with at least one issue, before the cookie step (no
  UUID is drawn) and before the insert: the table and the trace of statements are as
  they were.
\<close>

theorem invalid_body_inserts_nothing:
  assumes "violates_create_schema (body req)"
  shows "\<exists>issues. issues \<noteq> []
           \<and> post_transactions w req = (Threw (ZodError issues), log_hook w req)
           \<and> table (snd (post_transactions w req)) = table w
           \<and> statements (snd (post_transactions w req)) = statements w
           \<and> uuid_count (snd (post_transactions w req)) = uuid_count w"
proof -
  obtain issues where i: "issues \<noteq> []"
    and p: "createTransactionBodySchema_parse (body req) = Inl issues"
    using parse_invalid [OF assms] by blast
  have "post_transactions w req = (Threw (ZodError issues), log_hook w req)"
    using p by (rule post_transactions_invalid)
  with i show ?thesis by auto
qed

theorem invalid_body_inserts_nothing_witness:
  "post_transactions example_world
       (create_request Map.empty (JString ''T'') (JString ''abc'') (JString ''credit'')) =
     (Threw (ZodError [([''amount''], invalid_type)]),
      log_hook example_world
       (create_request Map.empty (JString ''T'') (JString ''abc'') (JString ''credit'')))
   \<and> table (snd (post_transactions example_world
       (create_request Map.empty (JString ''T'') (JString ''abc'') (JString ''credit'')))) = []"
proof -
  let ?r = "create_request Map.empty (JString ''T'') (JString ''abc'') (JString ''credit'')"
  have v: "violates_create_schema (body ?r)"
    by (simp add: violates_create_schema_def create_request_def property_def)
  have p: "createTransactionBodySchema_parse (body ?r) = Inl [([''amount''], invalid_type)]"
    by (simp add: createTransactionBodySchema_parse_def create_request_def property_def
        z_string_def z_number_def z_enum_def field_issues_def)
  show ?thesis
    using invalid_body_inserts_nothing [OF v, of example_world]
    by (auto simp add: post_transactions_def create_handler_def p example_world_def)
qed

subsection \<open>The cookie step of the create route\<close>

lemma resolve_session_absent:
  assumes "cookies req ''sessionId'' = None \<or> cookies req ''sessionId'' = Some []"
  shows "resolve_session w req =
           (uuid_source w (uuid_count w),
            [(''sessionId'', uuid_source w (uuid_count w), \<lparr>path = ''/'', maxAge = 604800\<rparr>)],
            w\<lparr>uuid_count := Suc (uuid_count w)\<rparr>)"
  using assms by (auto simp add: resolve_session_def mint_session_def randomUUID_def)

lemma resolve_session_present:
  assumes "cookies req ''sessionId'' = Some s" and "s \<noteq> []"
  shows "resolve_session w req = (s, [], w)"
  using assms by (simp add: resolve_session_def)

lemma is_uuid_nonempty: "is_uuid s \<Longrightarrow> s \<noteq> []"
  by (auto simp add: is_uuid_def)

lemma create_mints:
  assumes "createTransactionBodySchema_parse (body req) = Inr b"
    and "cookies req ''sessionId'' = None \<or> cookies req ''sessionId'' = Some []"
  shows "fst (post_transactions w req) =
           Sent \<lparr>status = 201,
                 set_cookie = [(''sessionId'', uuid_source w (uuid_count w),
                                \<lparr>path = ''/'', maxAge = 604800\<rparr>)],
                 payload = NoBody\<rparr>"
    and "created_session w req = uuid_source w (uuid_count w)"
  using post_transactions_valid(1) [OF assms(1), of w] assms(2)
  by (auto simp add: created_session_def resolve_session_absent simp del: One_nat_def)

lemma create_reuses:
  assumes "createTransactionBodySchema_parse (body req) = Inr b"
    and "cookies req ''sessionId'' = Some s" and "s \<noteq> []"
  shows "fst (post_transactions w req) = Sent \<lparr>status = 201, set_cookie = [], payload = NoBody\<rparr>"
    and "created_session w req = s"
  using post_transactions_valid(1) [OF assms(1), of w] assms(2,3)
  by (auto simp add: created_session_def resolve_session_present)

lemma create_session_column:
  assumes "createTransactionBodySchema_parse (body req) = Inr b"
  shows "map session_id (table (snd (post_transactions w req))) =
           map session_id (table w) @ [Some (created_session w req)]"
  using post_transactions_valid(2) [OF assms, of w] by simp

lemma example_uuid: "is_uuid ''0f8fad5b-d9cb-469f-a165-70867728950e''"
  by code_simp

text \<open>
  C4, as amended. On every create request with a valid body whose \<open>sessionId\<close> cookie
  is absent or is the empty string, the handler draws a UUID, sets it as the reply's
  cookie \<open>sessionId\<close> with path \<open>/\<close> and max-age 604800 seconds, and uses it as the
  \<open>session_id\<close> of the inserted row. On every create request with a valid body whose
  \<open>sessionId\<close> cookie is present and not empty, no cookie is set and the value of the
  cookie is the \<open>session_id\<close> of the inserted row. So a second create that sends the
  minted cookie back sets no cookie and writes to the same session.
\<close>

theorem cookie_minting:
  assumes "createTransactionBodySchema_parse (body req) = Inr b"
  shows "(cookies req ''sessionId'' = None \<or> cookies req ''sessionId'' = Some [] \<longrightarrow>
            fst (post_transactions w req) =
              Sent \<lparr>status = 201,
                    set_cookie = [(''sessionId'', uuid_source w (uuid_count w),
                                   \<lparr>path = ''/'', maxAge = 604800\<rparr>)],
                    payload = NoBody\<rparr>
            \<and> created_session w req = uuid_source w (uuid_count w))
       \<and> (\<forall>s. cookies req ''sessionId'' = Some s \<and> s \<noteq> [] \<longrightarrow>
            fst (post_transactions w req) =
              Sent \<lparr>status = 201, set_cookie = [], payload = NoBody\<rparr>
            \<and> created_session w req = s)
       \<and> map session_id (table (snd (post_transactions w req))) =
           map session_id (table w) @ [Some (created_session w req)]
       \<and> (\<forall>req2 b2.
            is_uuid (uuid_source w (uuid_count w))
            \<and> createTransactionBodySchema_parse (body req2) = Inr b2
            \<and> cookies req2 ''sessionId'' = Some (uuid_source w (uuid_count w)) \<longrightarrow>
              fst (post_transactions (snd (post_transactions w req)) req2) =
                Sent \<lparr>status = 201, set_cookie = [], payload = NoBody\<rparr>
              \<and> created_session (snd (post_transactions w req)) req2 =
                  uuid_source w (uuid_count w))"
proof (intro conjI impI allI)
  assume c: "cookies req ''sessionId'' = None \<or> cookies req ''sessionId'' = Some []"
  show "fst (post_transactions w req) =
          Sent \<lparr>status = 201,
                set_cookie = [(''sessionId'', uuid_source w (uuid_count w),
                               \<lparr>path = ''/'', maxAge = 604800\<rparr>)],
                payload = NoBody\<rparr>"
    using assms c by (rule create_mints(1))
  show "created_session w req = uuid_source w (uuid_count w)"
    using assms c by (rule create_mints(2))
next
  fix s assume c: "cookies req ''sessionId'' = Some s \<and> s \<noteq> []"
  show "fst (post_transactions w req) = Sent \<lparr>status = 201, set_cookie = [], payload = NoBody\<rparr>"
    using assms c create_reuses(1) by blast
  show "created_session w req = s"
    using assms c create_reuses(2) by blast
next
  show "map session_id (table (snd (post_transactions w req))) =
          map session_id (table w) @ [Some (created_session w req)]"
    using assms by (rule create_session_column)
next
  fix req2 :: request and b2 :: create_body
  assume h: "is_uuid (uuid_source w (uuid_count w))
             \<and> createTransactionBodySchema_parse (body req2) = Inr b2
             \<and> cookies req2 ''sessionId'' = Some (uuid_source w (uuid_count w))"
  then have n: "uuid_source w (uuid_count w) \<noteq> []"
    by (simp add: is_uuid_nonempty)
  show "fst (post_transactions (snd (post_transactions w req)) req2) =
          Sent \<lparr>status = 201, set_cookie = [], payload = NoBody\<rparr>"
    using h n create_reuses(1) by blast
  show "created_session (snd (post_transactions w req)) req2 = uuid_source w (uuid_count w)"
    using h n create_reuses(2) by blast
qed

theorem cookie_minting_witness:
  "fst (post_transactions example_world
      (create_request Map.empty (JString ''T'') (JNumber 5000) (JString ''credit''))) =
     Sent \<lparr>status = 201,
           set_cookie = [(''sessionId'', ''0f8fad5b-d9cb-469f-a165-70867728950e'',
                          \<lparr>path = ''/'', maxAge = 604800\<rparr>)],
           payload = NoBody\<rparr>
   \<and> fst (post_transactions
        (snd (post_transactions example_world
           (create_request Map.empty (JString ''T'') (JNumber 5000) (JString ''credit''))))
        (create_request [''sessionId'' \<mapsto> ''0f8fad5b-d9cb-469f-a165-70867728950e'']
           (JString ''D'') (JNumber 2000) (JString ''debit''))) =
     Sent \<lparr>status = 201, set_cookie = [], payload = NoBody\<rparr>"
proof -
  let ?r1 = "create_request Map.empty (JString ''T'') (JNumber 5000) (JString ''credit'')"
  let ?r2 = "create_request [''sessionId'' \<mapsto> ''0f8fad5b-d9cb-469f-a165-70867728950e'']
               (JString ''D'') (JNumber 2000) (JString ''debit'')"
  have p1: "createTransactionBodySchema_parse (body ?r1) =
              Inr \<lparr>body_title = ''T'', body_amount = 5000, body_type = ''credit''\<rparr>"
    by (simp add: create_request_def parse_valid)
  have p2: "createTransactionBodySchema_parse (body ?r2) =
              Inr \<lparr>body_title = ''D'', body_amount = 2000, body_type = ''debit''\<rparr>"
    by (simp add: create_request_def parse_valid)
  have c1: "cookies ?r1 ''sessionId'' = None"
    by (simp add: create_request_def)
  have c2: "cookies ?r2 ''sessionId'' = Some ''0f8fad5b-d9cb-469f-a165-70867728950e''"
    by (simp add: create_request_def)
  have u: "uuid_source example_world (uuid_count example_world) =
             ''0f8fad5b-d9cb-469f-a165-70867728950e''"
    by (simp add: example_world_def)
  note t = cookie_minting [OF p1, of example_world]
  have a: "fst (post_transactions example_world ?r1) =
             Sent \<lparr>status = 201,
                   set_cookie = [(''sessionId'', ''0f8fad5b-d9cb-469f-a165-70867728950e'',
                                  \<lparr>path = ''/'', maxAge = 604800\<rparr>)],
                   payload = NoBody\<rparr>"
    using t [THEN conjunct1] c1 u by simp
  have b: "fst (post_transactions (snd (post_transactions example_world ?r1)) ?r2) =
             Sent \<lparr>status = 201, set_cookie = [], payload = NoBody\<rparr>"
    using t [THEN conjunct2, THEN conjunct2, THEN conjunct2, rule_format, of ?r2]
      c2 p2 u example_uuid by simp
  from a b show ?thesis by (rule conjI)
qed

theorem cookie_minting_counterexample:
  "cookies (create_request [''sessionId'' \<mapsto> []] (JString ''T'') (JNumber 5000)
              (JString ''credit'')) ''sessionId'' = Some []
   \<and> fst (post_transactions example_world
        (create_request [''sessionId'' \<mapsto> []] (JString ''T'') (JNumber 5000)
           (JString ''credit''))) =
       Sent \<lparr>status = 201,
             set_cookie = [(''sessionId'', ''0f8fad5b-d9cb-469f-a165-70867728950e'',
                            \<lparr>path = ''/'', maxAge = 604800\<rparr>)],
             payload = NoBody\<rparr>
   \<and> map session_id (table (snd (post_transactions example_world
        (create_request [''sessionId'' \<mapsto> []] (JString ''T'') (JNumber 5000)
           (JString ''credit''))))) =
       [Some ''0f8fad5b-d9cb-469f-a165-70867728950e'']
   \<and> cookies (create_request Map.empty (JString ''T'') (JString ''abc'')
              (JString ''credit'')) ''sessionId'' = None
   \<and> fst (post_transactions example_world
        (create_request Map.empty (JString ''T'') (JString ''abc'') (JString ''credit''))) =
       Threw (ZodError [([''amount''], invalid_type)])
   \<and> uuid_count (snd (post_transactions example_world
        (create_request Map.empty (JString ''T'') (JString ''abc'') (JString ''credit'')))) =
       uuid_count example_world"
  by (simp add: post_transactions_def create_handler_def createTransactionBodySchema_parse_def
      create_request_def property_def z_string_def z_number_def z_enum_def field_issues_def
      resolve_session_def mint_session_def randomUUID_def knex_insert_def log_hook_def
      created_at_default_def example_world_def Let_def)

subsection \<open>The session guard\<close>

lemma guarded_rejects:
  assumes "cookies req ''sessionId'' = None"
  shows "guarded handler w req =
           (Sent \<lparr>status = 401, set_cookie = [], payload = UnauthorizedBody\<rparr>, log_hook w req)"
  using assms by (simp add: guarded_def checkSessionIdExists_def)

lemma guarded_passes:
  assumes "cookies req ''sessionId'' = Some s"
  shows "guarded handler w req = handler (log_hook w req) req"
  using assms by (simp add: guarded_def checkSessionIdExists_def)

text \<open>
  C5. A request to \<open>GET /\<close>, \<open>GET /:id\<close> or \<open>GET /summary\<close> that carries no
  \<open>sessionId\<close> cookie is answered by the guard with status 401, whatever the handler
  of the route is: the handler does not run, no statement reaches the storage handle
  and the table is as it was. The create route has no guard: a create request with a
  valid body and no cookie is answered with status 201.
\<close>

theorem missing_session_rejected:
  assumes "cookies req ''sessionId'' = None"
  shows "get_transactions w req =
           (Sent \<lparr>status = 401, set_cookie = [], payload = UnauthorizedBody\<rparr>, log_hook w req)
       \<and> get_transaction w req =
           (Sent \<lparr>status = 401, set_cookie = [], payload = UnauthorizedBody\<rparr>, log_hook w req)
       \<and> get_summary w req =
           (Sent \<lparr>status = 401, set_cookie = [], payload = UnauthorizedBody\<rparr>, log_hook w req)
       \<and> (\<forall>handler. guarded handler w req =
           (Sent \<lparr>status = 401, set_cookie = [], payload = UnauthorizedBody\<rparr>, log_hook w req))
       \<and> statements (log_hook w req) = statements w
       \<and> table (log_hook w req) = table w
       \<and> (\<forall>b. createTransactionBodySchema_parse (body req) = Inr b \<longrightarrow>
            fst (post_transactions w req) =
              Sent \<lparr>status = 201,
                    set_cookie = [(''sessionId'', uuid_source w (uuid_count w),
                                   \<lparr>path = ''/'', maxAge = 604800\<rparr>)],
                    payload = NoBody\<rparr>)"
  using assms
  by (simp add: get_transactions_def get_transaction_def get_summary_def guarded_rejects
      create_mints(1))

theorem missing_session_rejected_witness:
  "fst (get_transactions example_world (read_request ''/transactions'' Map.empty Map.empty)) =
     Sent \<lparr>status = 401, set_cookie = [], payload = UnauthorizedBody\<rparr>
   \<and> fst (get_summary example_world
        (read_request ''/transactions/summary'' Map.empty Map.empty)) =
     Sent \<lparr>status = 401, set_cookie = [], payload = UnauthorizedBody\<rparr>
   \<and> statements (snd (get_summary example_world
        (read_request ''/transactions/summary'' Map.empty Map.empty))) = []"
proof -
  have c: "cookies (read_request u Map.empty Map.empty) ''sessionId'' = None" for u
    by (simp add: read_request_def)
  show ?thesis
    using missing_session_rejected [OF c, of example_world "''/transactions''"]
      missing_session_rejected [OF c, of example_world "''/transactions/summary''"]
    by (simp add: example_world_def)
qed

subsection \<open>Get by id\<close>

text \<open>
  C6. For every get-by-id request with a session cookie (present and not empty) and an
  id that is a well-formed UUID, when no row of the table has both this session and
  this id, the route replies with status 200 and a body whose \<open>transaction\<close> field is
  undefined; it throws nothing and sends no error status.
\<close>

theorem get_by_id_miss:
  assumes "cookies req ''sessionId'' = Some s" and "s \<noteq> []"
    and "params req ''id'' = Some i" and "is_uuid i"
    and "\<forall>r \<in> set (table w). \<not> (session_id r = Some s \<and> id_col r = i)"
  shows "fst (get_transaction w req) =
           Sent \<lparr>status = 200, set_cookie = [], payload = TransactionBody None\<rparr>
       \<and> table (snd (get_transaction w req)) = table w"
proof -
  have f: "find (\<lambda>r. session_id r = Some s \<and> id_col r = i) (table w) = None"
    using assms(5) by (simp add: find_None_iff)
  have p: "getTransactionsParamsSchema_parse (params req) = Inr i"
    using assms(3,4) by (simp add: getTransactionsParamsSchema_parse_def)
  show ?thesis
    using assms(1) f p
    by (simp add: get_transaction_def guarded_passes get_handler_def ok_def)
qed

theorem get_by_id_miss_witness:
  "fst (get_transaction example_ledger
      (read_request ''/transactions/16fd2706-8baf-433b-82eb-8c7fada847da''
         [''sessionId'' \<mapsto> ''0f8fad5b-d9cb-469f-a165-70867728950e'']
         [''id'' \<mapsto> ''16fd2706-8baf-433b-82eb-8c7fada847da''])) =
     Sent \<lparr>status = 200, set_cookie = [], payload = TransactionBody None\<rparr>"
proof -
  let ?r = "read_request ''/transactions/16fd2706-8baf-433b-82eb-8c7fada847da''
         [''sessionId'' \<mapsto> ''0f8fad5b-d9cb-469f-a165-70867728950e'']
         [''id'' \<mapsto> ''16fd2706-8baf-433b-82eb-8c7fada847da'']"
  have c: "cookies ?r ''sessionId'' = Some ''0f8fad5b-d9cb-469f-a165-70867728950e''"
    by (simp add: read_request_def)
  have n: "''0f8fad5b-d9cb-469f-a165-70867728950e'' \<noteq> []" by simp
  have p: "params ?r ''id'' = Some ''16fd2706-8baf-433b-82eb-8c7fada847da''"
    by (simp add: read_request_def)
  have u: "is_uuid ''16fd2706-8baf-433b-82eb-8c7fada847da''" by code_simp
  have m: "\<forall>r \<in> set (table example_ledger).
             \<not> (session_id r = Some ''0f8fad5b-d9cb-469f-a165-70867728950e''
                \<and> id_col r = ''16fd2706-8baf-433b-82eb-8c7fada847da'')"
    by (simp add: example_ledger_def)
  show ?thesis
    using get_by_id_miss [OF c n p u m] by simp
qed

subsection \<open>What a create does to the rows of a session\<close>

lemma where_session_post:
  assumes "createTransactionBodySchema_parse (body req) = Inr b"
  shows "where_session s (table (snd (post_transactions w req))) =
           where_session s (table w) @
           (if created_session w req = s
            then [\<lparr>id_col = created_id w req, title = body_title b,
                   amount = (if body_type b = ''credit'' then body_amount b else - body_amount b),
                   created_at = clock w, session_id = Some s\<rparr>]
            else [])"
  using post_transactions_valid(2) [OF assms, of w] by (auto simp add: where_session_def)

lemma where_session_post_other:
  assumes "created_session w req \<noteq> s"
  shows "where_session s (table (snd (post_transactions w req))) = where_session s (table w)"
proof (cases "createTransactionBodySchema_parse (body req)")
  case (Inl issues)
  then show ?thesis by (simp add: post_transactions_invalid)
next
  case (Inr b)
  then show ?thesis using assms by (simp add: where_session_post)
qed

lemma where_session_creates:
  "written_elsewhere s w cs \<Longrightarrow> where_session s (table (creates w cs)) = where_session s (table w)"
proof (induction cs arbitrary: w)
  case Nil
  then show ?case by simp
next
  case (Cons c cs)
  then show ?case by (simp add: where_session_post_other)
qed

subsection \<open>What the reading routes return\<close>

lemma get_transactions_reply:
  assumes "cookies req ''sessionId'' = Some s"
  shows "fst (get_transactions w req) = Sent (ok (TransactionsBody (where_session s (table w))))"
    and "table (snd (get_transactions w req)) = table w"
  using assms by (simp_all add: get_transactions_def guarded_passes list_handler_def)

lemma get_summary_reply:
  assumes "cookies req ''sessionId'' = Some s"
  shows "fst (get_summary w req) =
           Sent (ok (SummaryBody (sum_amount w (where_session s (table w)))))"
    and "table (snd (get_summary w req)) = table w"
  using assms
  by (simp_all add: get_summary_def guarded_passes summary_handler_def sum_amount_def)

lemma find_where_session:
  "find (\<lambda>r. session_id r = Some s \<and> id_col r = i) rows =
     find (\<lambda>r. id_col r = i) (where_session s rows)"
  by (induction rows) (auto simp add: where_session_def)

lemma get_transaction_reply:
  assumes "cookies req ''sessionId'' = Some s"
  shows "fst (get_transaction w req) =
           (case getTransactionsParamsSchema_parse (params req) of
              Inl issues \<Rightarrow> Threw (ZodError issues)
            | Inr i \<Rightarrow> Sent (ok (TransactionBody
                         (find (\<lambda>r. id_col r = i) (where_session s (table w))))))"
  using assms
  by (simp add: get_transaction_def guarded_passes get_handler_def find_where_session
      split: sum.splits)

subsection \<open>Round trip\<close>

text \<open>
  C7. For every fresh session (an identifier that is not empty and that no row of the
  table carries, whatever rows of other sessions the table holds), creating one credit
  transaction with a title and an amount, and then listing the transactions with the
  cookie of that session, returns exactly one entry, with that title and that amount:
  for the title T and the amount 5000, one entry with title T and amount 5000.
\<close>

theorem create_then_list:
  assumes "body req = JObject obj"
    and "obj ''title'' = Some (JString t)"
    and "obj ''amount'' = Some (JNumber a)"
    and "obj ''type'' = Some (JString ''credit'')"
    and "\<forall>r \<in> set (table w). session_id r \<noteq> Some (created_session w req)"
    and "created_session w req \<noteq> []"
    and "cookies req2 ''sessionId'' = Some (created_session w req)"
  shows "fst (get_transactions (snd (post_transactions w req)) req2) =
           Sent \<lparr>status = 200, set_cookie = [],
                 payload = TransactionsBody
                   [\<lparr>id_col = created_id w req, title = t, amount = a, created_at = clock w,
                     session_id = Some (created_session w req)\<rparr>]\<rparr>"
proof -
  have p: "createTransactionBodySchema_parse (body req) =
             Inr \<lparr>body_title = t, body_amount = a, body_type = ''credit''\<rparr>"
    using assms(1-4) by (simp add: parse_valid)
  have e: "where_session (created_session w req) (table w) = []"
    using assms(5) by (simp add: where_session_def filter_empty_conv)
  have "where_session (created_session w req) (table (snd (post_transactions w req))) =
          [\<lparr>id_col = created_id w req, title = t, amount = a, created_at = clock w,
            session_id = Some (created_session w req)\<rparr>]"
    using where_session_post [OF p, of "created_session w req" w] e by simp
  then show ?thesis
    using get_transactions_reply(1) [OF assms(7), of "snd (post_transactions w req)"]
    by (simp add: ok_def)
qed

theorem create_then_list_witness:
  "length (table example_ledger) = 3
   \<and> fst (get_transactions
      (snd (post_transactions example_ledger
         (create_request Map.empty (JString ''T'') (JNumber 5000) (JString ''credit''))))
      (read_request ''/transactions''
         [''sessionId'' \<mapsto> ''a3bb189e-8bf9-3888-9912-ace4e6543002''] Map.empty)) =
     Sent \<lparr>status = 200, set_cookie = [],
           payload = TransactionsBody
             [\<lparr>id_col = ''3d813cbb-47fb-32ba-91df-831e1593ac29'', title = ''T'', amount = 5000,
               created_at = ''2024-01-04 00:00:00'',
               session_id = Some ''a3bb189e-8bf9-3888-9912-ace4e6543002''\<rparr>]\<rparr>"
proof -
  let ?c = "create_request Map.empty (JString ''T'') (JNumber 5000) (JString ''credit'')"
  let ?l = "read_request ''/transactions''
              [''sessionId'' \<mapsto> ''a3bb189e-8bf9-3888-9912-ace4e6543002''] Map.empty"
  let ?obj = "[''title'' \<mapsto> JString ''T'', ''amount'' \<mapsto> JNumber 5000,
               ''type'' \<mapsto> JString ''credit'']"
  have b: "body ?c = JObject ?obj" by (simp add: create_request_def)
  have s: "created_session example_ledger ?c = ''a3bb189e-8bf9-3888-9912-ace4e6543002''"
    by (simp add: created_session_def resolve_session_def mint_session_def randomUUID_def
        create_request_def example_ledger_def log_hook_def)
  have i: "created_id example_ledger ?c = ''3d813cbb-47fb-32ba-91df-831e1593ac29''"
    by (simp add: created_id_def resolve_session_def mint_session_def randomUUID_def
        create_request_def example_ledger_def log_hook_def)
  have f: "\<forall>r \<in> set (table example_ledger).
             session_id r \<noteq> Some (created_session example_ledger ?c)"
    by (simp add: s) (simp add: example_ledger_def)
  have n: "created_session example_ledger ?c \<noteq> []" by (simp add: s)
  have k: "cookies ?l ''sessionId'' = Some (created_session example_ledger ?c)"
    by (simp add: s read_request_def)
  have t: "length (table example_ledger) = 3" by (simp add: example_ledger_def)
  have "clock example_ledger = ''2024-01-04 00:00:00''" by (simp add: example_ledger_def)
  then show ?thesis
    using create_then_list [OF b _ _ _ f n k, of "''T''" 5000] t by (simp add: s i)
qed

subsection \<open>Summary\<close>

lemma creates_fields [simp]:
  "storage_sum (creates w cs) = storage_sum w"
  "uuid_source (creates w cs) = uuid_source w"
  by (induction cs arbitrary: w) simp_all












subsection \<open>Session isolation\<close>

lemma reads_depend_on_own_rows:
  assumes "cookies r ''sessionId'' = Some s"
    and "where_session s (table w') = where_session s (table w)"
    and "storage_sum w' = storage_sum w"
  shows "fst (get_transactions w' r) = fst (get_transactions w r)"
    and "fst (get_transaction w' r) = fst (get_transaction w r)"
    and "fst (get_summary w' r) = fst (get_summary w r)"
  using assms
  by (simp_all add: get_transactions_reply(1) get_transaction_reply get_summary_reply(1)
      sum_amount_def split: sum.splits)

lemma where_session_owner: "x \<in> set (where_session s rows) \<Longrightarrow> session_id x = Some s"
  by (simp add: where_session_def)

text \<open>
  C3. For two distinct session identifiers, the list, get-by-id and summary routes
  called with the cookie of the one (present and not empty) return only rows whose
  \<open>session_id\<close> is that cookie (the summary is the aggregate over these rows), and
  their replies are the same before and after any run of create requests that write
  to other sessions: a transaction created under one session is never visible with the
  cookie of another.
\<close>

theorem session_isolation:
  assumes "cookies r ''sessionId'' = Some s2"
    and "s2 \<noteq> []"
    and "written_elsewhere s2 w cs"
  shows "fst (get_transactions (creates w cs) r) = fst (get_transactions w r)
       \<and> fst (get_transaction (creates w cs) r) = fst (get_transaction w r)
       \<and> fst (get_summary (creates w cs) r) = fst (get_summary w r)
       \<and> (\<forall>rows. fst (get_transactions w r) = Sent (ok (TransactionsBody rows)) \<longrightarrow>
            (\<forall>x \<in> set rows. session_id x = Some s2))
       \<and> (\<forall>x. fst (get_transaction w r) = Sent (ok (TransactionBody (Some x))) \<longrightarrow>
            session_id x = Some s2)
       \<and> fst (get_summary w r) =
           Sent (ok (SummaryBody (sum_amount w (filter (\<lambda>x. session_id x = Some s2) (table w)))))"
proof (intro conjI allI impI)
  have e: "where_session s2 (table (creates w cs)) = where_session s2 (table w)"
    using assms(3) by (rule where_session_creates)
  have g: "storage_sum (creates w cs) = storage_sum w"
    by simp
  show "fst (get_transactions (creates w cs) r) = fst (get_transactions w r)"
    using assms(1) e g by (rule reads_depend_on_own_rows(1))
  show "fst (get_transaction (creates w cs) r) = fst (get_transaction w r)"
    using assms(1) e g by (rule reads_depend_on_own_rows(2))
  show "fst (get_summary (creates w cs) r) = fst (get_summary w r)"
    using assms(1) e g by (rule reads_depend_on_own_rows(3))
next
  fix rows
  assume "fst (get_transactions w r) = Sent (ok (TransactionsBody rows))"
  then have "rows = where_session s2 (table w)"
    using get_transactions_reply(1) [OF assms(1), of w] by (simp add: ok_def)
  then show "\<forall>x \<in> set rows. session_id x = Some s2"
    by (simp add: where_session_owner)
next
  fix x
  assume "fst (get_transaction w r) = Sent (ok (TransactionBody (Some x)))"
  then have "\<exists>i. find (\<lambda>r. id_col r = i) (where_session s2 (table w)) = Some x"
    using get_transaction_reply [OF assms(1), of w] by (auto simp add: ok_def split: sum.splits)
  then have "x \<in> set (where_session s2 (table w))"
    by (auto simp add: find_Some_iff)
  then show "session_id x = Some s2" by (rule where_session_owner)
next
  show "fst (get_summary w r) =
           Sent (ok (SummaryBody (sum_amount w (filter (\<lambda>x. session_id x = Some s2) (table w)))))"
    using get_summary_reply(1) [OF assms(1), of w] by (simp add: where_session_def)
qed

theorem session_isolation_witness:
  "fst (get_transactions
      (creates example_ledger
         [create_request [''sessionId'' \<mapsto> ''6ba7b810-9dad-11d1-80b4-00c04fd430c8'']
            (JString ''Salary'') (JNumber 900) (JString ''credit''),
          create_request Map.empty (JString ''Book'') (JNumber 30) (JString ''debit'')])
      (read_request ''/transactions''
         [''sessionId'' \<mapsto> ''0f8fad5b-d9cb-469f-a165-70867728950e''] Map.empty)) =
     Sent (ok (TransactionsBody
       [\<lparr>id_col = ''7c9e6679-7425-40de-944b-e07fc1f90ae7'', title = ''Credit transaction'',
         amount = 5000, created_at = ''2024-01-01 00:00:00'',
         session_id = Some ''0f8fad5b-d9cb-469f-a165-70867728950e''\<rparr>,
        \<lparr>id_col = ''886313e1-3b8a-5372-9b90-0c9aee199e5d'', title = ''Debit transaction'',
         amount = - 2000, created_at = ''2024-01-03 00:00:00'',
         session_id = Some ''0f8fad5b-d9cb-469f-a165-70867728950e''\<rparr>]))"
proof -
  let ?r = "read_request ''/transactions''
         [''sessionId'' \<mapsto> ''0f8fad5b-d9cb-469f-a165-70867728950e''] Map.empty"
  let ?c1 = "create_request [''sessionId'' \<mapsto> ''6ba7b810-9dad-11d1-80b4-00c04fd430c8'']
            (JString ''Salary'') (JNumber 900) (JString ''credit'')"
  let ?c2 = "create_request Map.empty (JString ''Book'') (JNumber 30) (JString ''debit'')"
  have k: "cookies ?r ''sessionId'' = Some ''0f8fad5b-d9cb-469f-a165-70867728950e''"
    by (simp add: read_request_def)
  have s1: "created_session w ?c1 = ''6ba7b810-9dad-11d1-80b4-00c04fd430c8''" for w
    by (simp add: created_session_def resolve_session_def create_request_def)
  have p1: "createTransactionBodySchema_parse (body ?c1) =
              Inr \<lparr>body_title = ''Salary'', body_amount = 900, body_type = ''credit''\<rparr>"
    by (simp add: create_request_def parse_valid)
  have u: "uuid_count (snd (post_transactions example_ledger ?c1)) = 6"
    using p1
    by (simp add: post_transactions_def create_handler_def resolve_session_def
        randomUUID_def knex_insert_def log_hook_def create_request_def example_ledger_def
        created_at_default_def Let_def)
  have c2: "cookies ?c2 ''sessionId'' = None"
    by (simp add: create_request_def)
  have s2: "created_session (snd (post_transactions example_ledger ?c1)) ?c2 =
              ''3d813cbb-47fb-32ba-91df-831e1593ac29''"
    using resolve_session_absent [of ?c2 "log_hook (snd (post_transactions example_ledger ?c1)) ?c2"]
      c2 u
    by (simp add: created_session_def) (simp add: example_ledger_def)
  have e: "written_elsewhere ''0f8fad5b-d9cb-469f-a165-70867728950e'' example_ledger [?c1, ?c2]"
    by (simp add: s1 s2)
  have l: "fst (get_transactions example_ledger ?r) =
             Sent (ok (TransactionsBody
               (where_session ''0f8fad5b-d9cb-469f-a165-70867728950e'' (table example_ledger))))"
    using k by (rule get_transactions_reply(1))
  have n: "''0f8fad5b-d9cb-469f-a165-70867728950e'' \<noteq> []" by simp
  show ?thesis
    using session_isolation [OF k n e, THEN conjunct1] l
    by (simp add: where_session_def example_ledger_def)
qed

subsection \<open>The environment loader\<close>

lemma enum_default_accepts:
  assumes "case v of None \<Rightarrow> True | Some s \<Rightarrow> s \<in> set vals"
  shows "env_enum_default vals d v = Inr (case v of None \<Rightarrow> d | Some s \<Rightarrow> s)"
  using assms by (cases v) (simp_all add: env_enum_default_def)

lemma enum_default_rejects:
  assumes "\<not> (case v of None \<Rightarrow> True | Some s \<Rightarrow> s \<in> set vals)"
  shows "env_enum_default vals d v = Inl invalid_enum_value"
  using assms by (cases v) (simp_all add: env_enum_default_def)

lemma coerce_number_accepts:
  assumes "case v of None \<Rightarrow> True | Some p \<Rightarrow> Number p \<noteq> NaN"
  shows "env_coerce_number_default d v = Inr (case v of None \<Rightarrow> d | Some p \<Rightarrow> Number p)"
proof (cases v)
  case None
  then show ?thesis by (simp add: env_coerce_number_default_def)
next
  case (Some p)
  with assms have "Number p \<noteq> NaN" by simp
  then show ?thesis
    using Some by (cases "Number p") (simp_all add: env_coerce_number_default_def)
qed

lemma coerce_number_rejects:
  assumes "\<not> (case v of None \<Rightarrow> True | Some p \<Rightarrow> Number p \<noteq> NaN)"
  shows "env_coerce_number_default d v = Inl invalid_type"
  using assms by (cases v) (simp_all add: env_coerce_number_default_def)

lemma collect_issues:
  assumes "isl n \<or> isl u \<or> isl c \<or> isl p"
  shows "field_issues k1 n @ field_issues k2 u @ field_issues k3 c @ field_issues k4 p \<noteq> []"
  using assms by (auto simp add: field_issues_def isl_def)

lemma some_field_fails:
  assumes "isl n \<or> isl u \<or> isl c \<or> isl p"
  shows "(case (n, u, c, p) of
            (Inr n', Inr u', Inr c', Inr p') \<Rightarrow> Inr (f n' u' c' p')
          | _ \<Rightarrow> Inl issues) = Inl issues"
  using assms by (cases n; cases u; cases c; cases p) simp_all

lemma safeParse_fails:
  assumes "isl (env_enum_default [''development'', ''test'', ''production''] ''production''
                  (e ''NODE_ENV''))
           \<or> isl (env_string (e ''DATABASE_URL''))
           \<or> isl (env_enum_default [''sqlite'', ''pg''] ''sqlite'' (e ''DATABASE_CLIENT''))
           \<or> isl (env_coerce_number_default (Finite 3333) (e ''PORT''))"
  shows "\<exists>issues. issues \<noteq> [] \<and> envSchema_safeParse e = Inl issues"
proof -
  let ?n = "env_enum_default [''development'', ''test'', ''production''] ''production''
              (e ''NODE_ENV'')"
  let ?u = "env_string (e ''DATABASE_URL'')"
  let ?c = "env_enum_default [''sqlite'', ''pg''] ''sqlite'' (e ''DATABASE_CLIENT'')"
  let ?p = "env_coerce_number_default (Finite 3333) (e ''PORT'')"
  let ?is = "field_issues ''NODE_ENV'' ?n @ field_issues ''DATABASE_URL'' ?u
             @ field_issues ''DATABASE_CLIENT'' ?c @ field_issues ''PORT'' ?p"
  show ?thesis
  proof (intro exI conjI)
    show "?is \<noteq> []" using assms by (rule collect_issues)
    show "envSchema_safeParse e = Inl ?is"
      unfolding envSchema_safeParse_def Let_def using assms by (rule some_field_fails)
  qed
qed

lemma safeParse_accepted:
  assumes "env_accepted e" and "e ''DATABASE_URL'' = Some u"
  shows "envSchema_safeParse e =
           Inr \<lparr>NODE_ENV = (case e ''NODE_ENV'' of None \<Rightarrow> ''production'' | Some v \<Rightarrow> v),
                DATABASE_URL = u,
                DATABASE_CLIENT = (case e ''DATABASE_CLIENT'' of None \<Rightarrow> ''sqlite'' | Some v \<Rightarrow> v),
                PORT = (case e ''PORT'' of None \<Rightarrow> Finite 3333 | Some p \<Rightarrow> Number p)\<rparr>"
proof -
  have n: "case e ''NODE_ENV'' of None \<Rightarrow> True
           | Some s \<Rightarrow> s \<in> set [''development'', ''test'', ''production'']"
    using assms(1) by (simp only: env_accepted_def)
  have c: "case e ''DATABASE_CLIENT'' of None \<Rightarrow> True | Some s \<Rightarrow> s \<in> set [''sqlite'', ''pg'']"
    using assms(1) by (simp only: env_accepted_def)
  have p: "case e ''PORT'' of None \<Rightarrow> True | Some p \<Rightarrow> Number p \<noteq> NaN"
    using assms(1) by (simp only: env_accepted_def)
  show ?thesis
    by (simp add: envSchema_safeParse_def enum_default_accepts [OF n]
        enum_default_accepts [OF c] coerce_number_accepts [OF p] env_string_def assms(2))
qed

lemma safeParse_rejected:
  assumes "\<not> env_accepted e"
  shows "\<exists>issues. issues \<noteq> [] \<and> envSchema_safeParse e = Inl issues"
proof -
  let ?n = "env_enum_default [''development'', ''test'', ''production''] ''production''
              (e ''NODE_ENV'')"
  let ?u = "env_string (e ''DATABASE_URL'')"
  let ?c = "env_enum_default [''sqlite'', ''pg''] ''sqlite'' (e ''DATABASE_CLIENT'')"
  let ?p = "env_coerce_number_default (Finite 3333) (e ''PORT'')"
  define A where "A = (e ''DATABASE_URL'' \<noteq> None)"
  define B where "B = (case e ''NODE_ENV'' of None \<Rightarrow> True
                       | Some s \<Rightarrow> s \<in> set [''development'', ''test'', ''production''])"
  define C where "C = (case e ''DATABASE_CLIENT'' of None \<Rightarrow> True
                       | Some s \<Rightarrow> s \<in> set [''sqlite'', ''pg''])"
  define D where "D = (case e ''PORT'' of None \<Rightarrow> True | Some p \<Rightarrow> Number p \<noteq> NaN)"
  have "\<not> (A \<and> B \<and> C \<and> D)"
    using assms unfolding env_accepted_def A_def B_def C_def D_def .
  then consider "\<not> A" | "\<not> B" | "\<not> C" | "\<not> D" by blast
  then have "isl ?n \<or> isl ?u \<or> isl ?c \<or> isl ?p"
  proof cases
    case 1
    then have "e ''DATABASE_URL'' = None" by (simp add: A_def)
    then have "isl ?u" by (simp add: env_string_def)
    then show ?thesis by (intro disjI2 disjI1)
  next
    case 2
    then have "?n = Inl invalid_enum_value"
      unfolding B_def by (rule enum_default_rejects)
    then have "isl ?n" by (simp only: sum.disc)
    then show ?thesis by (rule disjI1)
  next
    case 3
    then have "?c = Inl invalid_enum_value"
      unfolding C_def by (rule enum_default_rejects)
    then have "isl ?c" by (simp only: sum.disc)
    then show ?thesis by (intro disjI2 disjI1)
  next
    case 4
    then have "?p = Inl invalid_type"
      unfolding D_def by (rule coerce_number_rejects)
    then have "isl ?p" by (simp only: sum.disc)
    then show ?thesis by (intro disjI2)
  qed
  then show ?thesis by (rule safeParse_fails)
qed

text \<open>
  C9, as amended. The environment loader succeeds exactly when, in the environment
  that the schema sees (the process environment completed by the \<open>.env\<close> file),
  \<open>DATABASE_URL\<close> is set, \<open>NODE_ENV\<close> is unset or one of development, test and
  production, \<open>DATABASE_CLIENT\<close> is unset or one of sqlite and pg, and \<open>PORT\<close> is unset
  or a string that \<open>Number\<close> converts to a number, integer or not. On success the
  unset optional variables get the defaults production, sqlite and 3333; otherwise
  the loader throws, with at least one issue printed.
\<close>

theorem env_loader:
  "(\<forall>u. env_accepted (process_env files penv)
        \<and> process_env files penv ''DATABASE_URL'' = Some u \<longrightarrow>
        load_env files penv =
          Inr \<lparr>NODE_ENV = (case process_env files penv ''NODE_ENV'' of
                             None \<Rightarrow> ''production'' | Some v \<Rightarrow> v),
               DATABASE_URL = u,
               DATABASE_CLIENT = (case process_env files penv ''DATABASE_CLIENT'' of
                                    None \<Rightarrow> ''sqlite'' | Some v \<Rightarrow> v),
               PORT = (case process_env files penv ''PORT'' of
                         None \<Rightarrow> Finite 3333 | Some p \<Rightarrow> Number p)\<rparr>)
   \<and> (env_accepted (process_env files penv) \<longrightarrow>
        process_env files penv ''DATABASE_URL'' \<noteq> None)
   \<and> (\<not> env_accepted (process_env files penv) \<longrightarrow>
        (\<exists>issues. issues \<noteq> [] \<and> load_env files penv = Inl (InvalidEnvironment issues)))"
proof (intro conjI allI impI)
  fix u
  assume "env_accepted (process_env files penv)
          \<and> process_env files penv ''DATABASE_URL'' = Some u"
  then show "load_env files penv =
          Inr \<lparr>NODE_ENV = (case process_env files penv ''NODE_ENV'' of
                             None \<Rightarrow> ''production'' | Some v \<Rightarrow> v),
               DATABASE_URL = u,
               DATABASE_CLIENT = (case process_env files penv ''DATABASE_CLIENT'' of
                                    None \<Rightarrow> ''sqlite'' | Some v \<Rightarrow> v),
               PORT = (case process_env files penv ''PORT'' of
                         None \<Rightarrow> Finite 3333 | Some p \<Rightarrow> Number p)\<rparr>"
    by (simp add: load_env_def safeParse_accepted)
next
  assume "env_accepted (process_env files penv)"
  then show "process_env files penv ''DATABASE_URL'' \<noteq> None"
    by (simp add: env_accepted_def)
next
  assume "\<not> env_accepted (process_env files penv)"
  then obtain issues where "issues \<noteq> []"
    and "envSchema_safeParse (process_env files penv) = Inl issues"
    using safeParse_rejected by blast
  then show "\<exists>issues. issues \<noteq> [] \<and> load_env files penv = Inl (InvalidEnvironment issues)"
    by (simp add: load_env_def)
qed

lemmas Number_eval = Number_def trim_def is_space_def non_decimal_def unsigned_decimal_def
  is_digit_def radix_digit_def digits_value_def exponent_def scale_def negate_def

lemma Number_8080: "Number ''8080'' = Finite 8080"
  by (simp add: Number_eval)

lemma Number_3_5: "Number ''3.5'' = Finite (7 / 2)"
  by (simp add: Number_eval)

lemma Number_abc: "Number ''abc'' = NaN"
  by (simp add: Number_eval)

theorem env_loader_witness:
  "load_env test_files [''NODE_ENV'' \<mapsto> ''test'', ''PORT'' \<mapsto> ''8080''] =
     Inr \<lparr>NODE_ENV = ''test'', DATABASE_URL = ''./db/test.db'', DATABASE_CLIENT = ''sqlite'',
          PORT = Finite 8080\<rparr>
   \<and> (\<exists>issues. issues \<noteq> []
        \<and> load_env no_files [''DATABASE_URL'' \<mapsto> ''./db/app.db'', ''PORT'' \<mapsto> ''abc''] =
            Inl (InvalidEnvironment issues))"
proof -
  let ?p = "[''NODE_ENV'' \<mapsto> ''test'', ''PORT'' \<mapsto> ''8080'']"
  let ?q = "[''DATABASE_URL'' \<mapsto> ''./db/app.db'', ''PORT'' \<mapsto> ''abc'']"
  have e: "process_env test_files ?p =
             [''DATABASE_URL'' \<mapsto> ''./db/test.db'', ''PORT'' \<mapsto> ''1''] ++ ?p"
    by (simp add: process_env_def dotenv_config_def test_files_def)
  have a: "env_accepted (process_env test_files ?p)"
    by (simp add: e env_accepted_def Number_8080)
  have u: "process_env test_files ?p ''DATABASE_URL'' = Some ''./db/test.db''"
    by (simp add: e)
  have f: "process_env no_files ?q = ?q"
    by (simp add: process_env_def dotenv_config_def no_files_def)
  have r: "\<not> env_accepted (process_env no_files ?q)"
    by (simp add: f env_accepted_def Number_abc)
  have 1: "load_env test_files ?p =
     Inr \<lparr>NODE_ENV = ''test'', DATABASE_URL = ''./db/test.db'', DATABASE_CLIENT = ''sqlite'',
          PORT = Finite 8080\<rparr>"
    using env_loader [of test_files ?p, THEN conjunct1, rule_format, of "''./db/test.db''"] a u
    by (simp add: e Number_8080)
  have 2: "\<exists>issues. issues \<noteq> [] \<and> load_env no_files ?q = Inl (InvalidEnvironment issues)"
    using env_loader [of no_files ?q, THEN conjunct2, THEN conjunct2] r by simp
  from 1 2 show ?thesis by (rule conjI)
qed

theorem env_loader_counterexample:
  "load_env no_files [''DATABASE_URL'' \<mapsto> ''./db/app.db'', ''PORT'' \<mapsto> ''3.5''] =
     Inr \<lparr>NODE_ENV = ''production'', DATABASE_URL = ''./db/app.db'',
          DATABASE_CLIENT = ''sqlite'', PORT = Finite (7 / 2)\<rparr>
   \<and> \<not> is_integer (Finite (7 / 2))
   \<and> \<not> spec_env_accepted
        (process_env no_files [''DATABASE_URL'' \<mapsto> ''./db/app.db'', ''PORT'' \<mapsto> ''3.5''])"
proof -
  let ?q = "[''DATABASE_URL'' \<mapsto> ''./db/app.db'', ''PORT'' \<mapsto> ''3.5'']"
  have f: "process_env no_files ?q = ?q"
    by (simp add: process_env_def dotenv_config_def no_files_def)
  have u: "?q ''DATABASE_URL'' = Some ''./db/app.db''" by simp
  have n: "?q ''NODE_ENV'' = None" by simp
  have c: "?q ''DATABASE_CLIENT'' = None" by simp
  have p: "?q ''PORT'' = Some ''3.5''" by simp
  have a: "env_accepted ?q"
    unfolding env_accepted_def by (simp add: Number_3_5)
  have "\<lfloor>7 / 2 :: rat\<rfloor> = 3"
    by (rule floor_unique) simp_all
  then have i: "\<not> is_integer (Finite (7 / 2))"
    by (simp add: is_integer_def)
  have 1: "load_env no_files ?q =
     Inr \<lparr>NODE_ENV = ''production'', DATABASE_URL = ''./db/app.db'',
          DATABASE_CLIENT = ''sqlite'', PORT = Finite (7 / 2)\<rparr>"
    unfolding load_env_def f safeParse_accepted [OF a u]
    by (simp add: Number_3_5)
  have 2: "\<not> spec_env_accepted (process_env no_files ?q)"
    unfolding f spec_env_accepted_def using i
    by (simp add: Number_3_5)
  from 1 i 2 show ?thesis by (intro conjI)
qed

end
